theory Spec2Isabelle
  imports Complex_Main "HOL-Library.Multiset" "HOL-Library.AList"
begin

section \<open>Numbers\<close>

text \<open>
  The arrays of the program hold IEEE doubles. They are modelled without rounding: a
  finite value is a real number, and the three non-finite values of numpy arithmetic
  are kept, since the program reaches them (the mean of an empty array and \<open>0/0\<close>
  are \<open>nan\<close>, and no numpy operation on arrays raises). Zero carries no sign: a
  non-zero value divided by zero has the sign of the numerator.

  Since rounding is left out, an identity of the reals such as \<open>x / c * c = x\<close> holds
  of these numbers though not of doubles. The statements about computed weights below
  therefore keep the operations in the order in which the program performs them, and
  their proofs use no such identity.
\<close>

datatype npfloat = Fin real | PInf | NInf | NaN

fun np_neg :: "npfloat \<Rightarrow> npfloat" where
  "np_neg (Fin a) = Fin (- a)"
| "np_neg PInf = NInf"
| "np_neg NInf = PInf"
| "np_neg NaN = NaN"

fun np_add :: "npfloat \<Rightarrow> npfloat \<Rightarrow> npfloat" where
  "np_add (Fin a) (Fin b) = Fin (a + b)"
| "np_add NaN y = NaN"
| "np_add x NaN = NaN"
| "np_add PInf NInf = NaN"
| "np_add NInf PInf = NaN"
| "np_add PInf y = PInf"
| "np_add x PInf = PInf"
| "np_add NInf y = NInf"
| "np_add x NInf = NInf"

definition np_sub :: "npfloat \<Rightarrow> npfloat \<Rightarrow> npfloat" where
  "np_sub x y = np_add x (np_neg y)"

fun np_mul :: "npfloat \<Rightarrow> npfloat \<Rightarrow> npfloat" where
  "np_mul (Fin a) (Fin b) = Fin (a * b)"
| "np_mul NaN y = NaN"
| "np_mul x NaN = NaN"
| "np_mul (Fin a) PInf = (if a = 0 then NaN else if 0 < a then PInf else NInf)"
| "np_mul (Fin a) NInf = (if a = 0 then NaN else if 0 < a then NInf else PInf)"
| "np_mul PInf (Fin b) = (if b = 0 then NaN else if 0 < b then PInf else NInf)"
| "np_mul NInf (Fin b) = (if b = 0 then NaN else if 0 < b then NInf else PInf)"
| "np_mul PInf PInf = PInf"
| "np_mul PInf NInf = NInf"
| "np_mul NInf PInf = NInf"
| "np_mul NInf NInf = PInf"

fun np_div :: "npfloat \<Rightarrow> npfloat \<Rightarrow> npfloat" where
  "np_div (Fin a) (Fin b) =
     (if b \<noteq> 0 then Fin (a / b)
      else if a = 0 then NaN else if 0 < a then PInf else NInf)"
| "np_div NaN y = NaN"
| "np_div x NaN = NaN"
| "np_div (Fin a) PInf = Fin 0"
| "np_div (Fin a) NInf = Fin 0"
| "np_div PInf (Fin b) = (if 0 \<le> b then PInf else NInf)"
| "np_div NInf (Fin b) = (if 0 \<le> b then NInf else PInf)"
| "np_div PInf PInf = NaN"
| "np_div PInf NInf = NaN"
| "np_div NInf PInf = NaN"
| "np_div NInf NInf = NaN"

fun np_exp :: "npfloat \<Rightarrow> npfloat" where
  "np_exp (Fin a) = Fin (exp a)"
| "np_exp PInf = PInf"
| "np_exp NInf = Fin 0"
| "np_exp NaN = NaN"

text \<open>\<open>np.clip(x, a_min, a_max)\<close> is \<open>minimum(maximum(x, a_min), a_max)\<close>;
  \<open>nan\<close> stays \<open>nan\<close>.\<close>

fun np_clip :: "npfloat \<Rightarrow> real \<Rightarrow> real \<Rightarrow> npfloat" where
  "np_clip (Fin a) a_min a_max = Fin (min (max a a_min) a_max)"
| "np_clip PInf a_min a_max = Fin a_max"
| "np_clip NInf a_min a_max = Fin (min a_min a_max)"
| "np_clip NaN a_min a_max = NaN"

text \<open>Comparisons: every comparison with \<open>nan\<close> is false.\<close>

fun np_ge :: "npfloat \<Rightarrow> npfloat \<Rightarrow> bool" where
  "np_ge NaN y = False"
| "np_ge x NaN = False"
| "np_ge (Fin a) (Fin b) = (b \<le> a)"
| "np_ge PInf y = True"
| "np_ge x NInf = True"
| "np_ge (Fin a) PInf = False"
| "np_ge NInf y = False"

fun np_lt :: "npfloat \<Rightarrow> npfloat \<Rightarrow> bool" where
  "np_lt NaN y = False"
| "np_lt x NaN = False"
| "np_lt (Fin a) (Fin b) = (a < b)"
| "np_lt PInf y = False"
| "np_lt x NInf = False"
| "np_lt (Fin a) PInf = True"
| "np_lt NInf y = True"

text \<open>\<open>np.sum\<close> and \<open>np.mean\<close> of a one-dimensional array; the mean of an
  empty array is \<open>0.0 / 0\<close>. numpy adds the elements pairwise; without rounding
  the order of the additions does not change the sum.\<close>

definition np_sum :: "npfloat list \<Rightarrow> npfloat" where
  "np_sum xs = foldl np_add (Fin 0) xs"

definition np_mean :: "npfloat list \<Rightarrow> npfloat" where
  "np_mean xs = np_div (np_sum xs) (Fin (real (length xs)))"

text \<open>A two-dimensional array is the list of its rows; \<open>np.mean\<close> of it runs over
  all its elements.\<close>

definition np_mean2 :: "npfloat list list \<Rightarrow> npfloat" where
  "np_mean2 m = np_mean (concat m)"

section \<open>Tables, catalogues and the store\<close>

text \<open>One row of a catalogue table, with the columns the program reads.\<close>

record galaxy =
  theta :: npfloat
  phi :: npfloat
  z :: npfloat
  z_lower :: npfloat
  z_upper :: npfloat
  z_lowerbound :: npfloat
  z_upperbound :: npfloat
  w :: npfloat

text \<open>
  A dataframe: its rows, and the pixel columns \<open>"pix" + str(nside)\<close> it holds, keyed by
  \<open>nside\<close>, each as long as the table. A table with no row can still hold a pixel
  column.
\<close>

record frame =
  rows :: "galaxy list"
  pixcols :: "(int \<times> int list) list"

text \<open>
  Dataframes are objects that several names can refer to (\<open>selectedData\<close> is
  \<open>data\<close> itself until a selection is made), and the program assigns columns in place.
  The store holds every dataframe at an address; \<open>ang2pix_calls\<close> records each call
  of \<open>hp.ang2pix\<close>: the resolution and the table whose rows it was given.
\<close>

record state =
  frames :: "frame list"
  ang2pix_calls :: "(int \<times> nat) list"

definition alloc :: "frame \<Rightarrow> state \<Rightarrow> nat \<times> state" where
  "alloc f st = (length (frames st), st\<lparr>frames := frames st @ [f]\<rparr>)"

text \<open>
  Modelled from the spec: the completeness model is not part of the sources. \<open>get\<close>
  gives the model's value at one angular position and one redshift; with
  \<open>oneZPerAngle\<close> the arrays are paired point by point, without it the redshift grid
  is evaluated at every angular position. \<open>comovingDensityGoal\<close> is its scalar
  attribute \<open>_comovingDensityGoal\<close>.
\<close>

record Completeness =
  get :: "npfloat \<Rightarrow> npfloat \<Rightarrow> npfloat \<Rightarrow> npfloat"
  comovingDensityGoal :: npfloat

record GalCat =
  data :: nat
  selectedData :: nat
  completeness_model :: Completeness

record GalCompleted =
  galcats :: "GalCat list"
  catweights :: "npfloat list"
  additive :: bool
  multiplicative :: bool

datatype error = ValueError | AssertionError

text \<open>\<open>GalCat.__init__\<close>: the loaded table (the result of the abstract \<open>load\<close>) is
  stored, and the selection is the same object.\<close>

definition GalCat_init :: "frame \<Rightarrow> Completeness \<Rightarrow> state \<Rightarrow> GalCat \<times> state" where
  "GalCat_init loaded cm st =
     (let (r, st') = alloc loaded st
      in (\<lparr>data = r, selectedData = r, completeness_model = cm\<rparr>, st'))"


definition has_pix :: "frame \<Rightarrow> int \<Rightarrow> bool" where
  "has_pix f nside = (map_of (pixcols f) nside \<noteq> None)"

definition pix_column :: "frame \<Rightarrow> int \<Rightarrow> int list" where
  "pix_column f nside = (case map_of (pixcols f) nside of Some col \<Rightarrow> col | None \<Rightarrow> [])"

text \<open>
  The guarded assignment \<open>if not pixname in t: t.loc[:, pixname] = hp.ang2pix(nside,
  t.theta, t.phi)\<close> on the table at address \<open>r\<close>. \<open>hp.ang2pix\<close> is the parameter
  \<open>ang2pix\<close>, applied row by row.
\<close>

definition cache_pix ::
  "(int \<Rightarrow> npfloat \<Rightarrow> npfloat \<Rightarrow> int) \<Rightarrow> int \<Rightarrow> nat \<Rightarrow> state \<Rightarrow> state" where
  "cache_pix ang2pix nside r st =
     (let t = frames st ! r
      in if has_pix t nside then st
         else st\<lparr>frames := (frames st)
                   [r := t\<lparr>pixcols :=
                          AList.update nside (map (\<lambda>g. ang2pix nside (theta g) (phi g)) (rows t))
                            (pixcols t)\<rparr>],
                 ang2pix_calls := ang2pix_calls st @ [(nside, r)]\<rparr>)"

text \<open>Boolean indexing \<open>t[mask]\<close>: a new table with the rows where the mask holds,
  every column cut alike.\<close>

definition take_mask :: "bool list \<Rightarrow> 'a list \<Rightarrow> 'a list" where
  "take_mask msk xs = map fst (filter snd (zip xs msk))"

definition frame_mask :: "frame \<Rightarrow> bool list \<Rightarrow> frame" where
  "frame_mask t msk =
     \<lparr>rows = take_mask msk (rows t),
      pixcols = map (\<lambda>(k, col). (k, take_mask msk col)) (pixcols t)\<rparr>"

text \<open>\<open>GalCat.select_area\<close>\<close>

definition select_area ::
  "(int \<Rightarrow> npfloat \<Rightarrow> npfloat \<Rightarrow> int) \<Rightarrow> int list \<Rightarrow> int \<Rightarrow> GalCat \<Rightarrow> state \<Rightarrow> GalCat \<times> state" where
  "select_area ang2pix pixels nside c st =
     (let st1 = cache_pix ang2pix nside (data c) st;
          t = frames st1 ! data c;
          msk = map (\<lambda>p. p \<in> set pixels) (pix_column t nside);
          (r, st2) = alloc (frame_mask t msk) st1
      in (c\<lparr>selectedData := r\<rparr>, st2))"

text \<open>\<open>GalCat.set_z_range_for_selection\<close>\<close>

definition set_z_range_for_selection ::
  "npfloat \<Rightarrow> npfloat \<Rightarrow> GalCat \<Rightarrow> state \<Rightarrow> GalCat \<times> state" where
  "set_z_range_for_selection zMin zMax c st =
     (let t = frames st ! selectedData c;
          msk = map (\<lambda>g. np_ge (z g) zMin \<and> np_lt (z g) zMax) (rows t);
          (r, st') = alloc (frame_mask t msk) st
      in (c\<lparr>selectedData := r\<rparr>, st'))"

definition count_selection :: "GalCat \<Rightarrow> state \<Rightarrow> nat" where
  "count_selection c st = length (rows (frames st ! selectedData c))"

text \<open>\<open>GalCat.completeness\<close>, at one position and one redshift.\<close>

definition completeness :: "GalCat \<Rightarrow> npfloat \<Rightarrow> npfloat \<Rightarrow> npfloat \<Rightarrow> npfloat" where
  "completeness c th ph zz = np_add (get (completeness_model c) th ph zz) (Fin (1 / 10 ^ 9))"

section \<open>The completion aggregator\<close>

text \<open>\<open>GalCompleted.__init__\<close> and \<open>add_cat\<close>\<close>

definition GalCompleted_init :: "string \<Rightarrow> GalCompleted" where
  "GalCompleted_init completionType =
     (let s = \<lparr>galcats = [], catweights = [], additive = False, multiplicative = False\<rparr>
      in if completionType = ''add'' then s\<lparr>additive := True\<rparr>
         else if completionType = ''mult'' then s\<lparr>multiplicative := True\<rparr>
         else s)"

definition add_cat :: "GalCat \<Rightarrow> npfloat \<Rightarrow> GalCompleted \<Rightarrow> GalCompleted" where
  "add_cat cat weight s =
     s\<lparr>galcats := galcats s @ [cat], catweights := catweights s @ [weight]\<rparr>"

text \<open>\<open>GalCompleted.confidence\<close>, at one element of its argument.\<close>

definition confidence :: "GalCompleted \<Rightarrow> npfloat \<Rightarrow> npfloat" where
  "confidence s compl =
     (if multiplicative s then Fin 1
      else if additive s then compl
      else (let confpower = Fin (5 / 100);
                complb = np_clip compl (2 / 1000) 1
            in np_exp (np_mul confpower (np_sub (Fin 1) (np_div (Fin 1) complb)))))"

text \<open>\<open>GalCompleted.select_area\<close> and \<open>GalCompleted.set_z_range_for_selection\<close>: the
  loop over the catalogues.\<close>

fun select_area_cats ::
  "(int \<Rightarrow> npfloat \<Rightarrow> npfloat \<Rightarrow> int) \<Rightarrow> int list \<Rightarrow> int \<Rightarrow> GalCat list \<Rightarrow> state
     \<Rightarrow> GalCat list \<times> state" where
  "select_area_cats ang2pix pixels nside [] st = ([], st)"
| "select_area_cats ang2pix pixels nside (c # cs) st =
     (let (c', st1) = select_area ang2pix pixels nside c st;
          (cs', st2) = select_area_cats ang2pix pixels nside cs st1
      in (c' # cs', st2))"

definition GalCompleted_select_area ::
  "(int \<Rightarrow> npfloat \<Rightarrow> npfloat \<Rightarrow> int) \<Rightarrow> int list \<Rightarrow> int \<Rightarrow> GalCompleted \<Rightarrow> state
     \<Rightarrow> GalCompleted \<times> state" where
  "GalCompleted_select_area ang2pix pixels nside s st =
     (let (cs, st') = select_area_cats ang2pix pixels nside (galcats s) st
      in (s\<lparr>galcats := cs\<rparr>, st'))"

fun set_z_range_cats ::
  "npfloat \<Rightarrow> npfloat \<Rightarrow> GalCat list \<Rightarrow> state \<Rightarrow> GalCat list \<times> state" where
  "set_z_range_cats zMin zMax [] st = ([], st)"
| "set_z_range_cats zMin zMax (c # cs) st =
     (let (c', st1) = set_z_range_for_selection zMin zMax c st;
          (cs', st2) = set_z_range_cats zMin zMax cs st1
      in (c' # cs', st2))"

definition GalCompleted_set_z_range_for_selection ::
  "npfloat \<Rightarrow> npfloat \<Rightarrow> GalCompleted \<Rightarrow> state \<Rightarrow> GalCompleted \<times> state" where
  "GalCompleted_set_z_range_for_selection zMin zMax s st =
     (let (cs, st') = set_z_range_cats zMin zMax (galcats s) st
      in (s\<lparr>galcats := cs\<rparr>, st'))"

subsection \<open>Inhomogeneous part with redshift errors\<close>

text \<open>
  Modelled from the spec: \<open>bounded_keelin_3_discrete_probabilities\<close> (module
  \<open>keelin\<close>) is not part of the sources. It returns, for a batch of galaxies, a
  matrix of shape (batch, grid length); \<open>keelin zGrid g j\<close> is its entry for galaxy
  \<open>g\<close> and grid cell \<open>j\<close>. The matrix is kept two-dimensional throughout, which
  is what \<open>if weights.ndim == 1: weights = weights[np.newaxis, :]\<close> restores.
  \<open>keelin_weights\<close> is that matrix after \<open>weights *= d.w[:, np.newaxis]\<close>.
\<close>

definition keelin_weights ::
  "(npfloat list \<Rightarrow> galaxy \<Rightarrow> nat \<Rightarrow> npfloat) \<Rightarrow> npfloat list \<Rightarrow> frame \<Rightarrow> npfloat list list" where
  "keelin_weights keelin zGrid d =
     map (\<lambda>g. map (\<lambda>j. np_mul (keelin zGrid g j) (w g)) [0..<length zGrid]) (rows d)"

text \<open>\<open>c.completeness(d.theta.to_numpy(), d.phi.to_numpy(), zGrid)\<close>: the divisor of
  \<open>weights /= completeness\<close> in \<open>get_inhom_contained\<close>.\<close>

definition grid_completeness :: "GalCat \<Rightarrow> npfloat list \<Rightarrow> frame \<Rightarrow> npfloat list list" where
  "grid_completeness c zGrid d =
     map (\<lambda>g. map (\<lambda>zz. completeness c (theta g) (phi g) zz) zGrid) (rows d)"

text \<open>The loop of \<open>get_inhom_contained\<close> over \<open>zip(self._galcats, self._catweights)\<close>;
  the accumulator is the store, \<open>allpixels\<close>, \<open>allweights\<close> and \<open>catweightTotal\<close>.\<close>

fun get_inhom_contained_loop ::
  "(int \<Rightarrow> npfloat \<Rightarrow> npfloat \<Rightarrow> int) \<Rightarrow> (npfloat list \<Rightarrow> galaxy \<Rightarrow> nat \<Rightarrow> npfloat) \<Rightarrow>
   GalCompleted \<Rightarrow> npfloat list \<Rightarrow> int \<Rightarrow> (GalCat \<times> npfloat) list \<Rightarrow>
   state \<times> int list list \<times> npfloat list list list \<times> npfloat \<Rightarrow>
   state \<times> int list list \<times> npfloat list list list \<times> npfloat" where
  "get_inhom_contained_loop ang2pix keelin s zGrid nside [] acc = acc"
| "get_inhom_contained_loop ang2pix keelin s zGrid nside ((c, wt) # rest)
     (st, allpixels, allweights, catweightTotal) =
     (let st1 = cache_pix ang2pix nside (selectedData c) st;
          d = frames st1 ! selectedData c;
          weights = keelin_weights keelin zGrid d;
          (weights', catweightTotal') =
            (if additive s \<and> length (galcats s) = 1 then (weights, wt)
             else
               (let compl = grid_completeness c zGrid d;
                    catweight = np_mul wt (np_mean2 compl)
                in (map2 (map2 (\<lambda>x cp. np_mul (np_mul (np_div x cp) (confidence s cp)) catweight))
                      weights compl,
                    np_add catweightTotal catweight)));
          weights'' = map (map (\<lambda>x. np_div x (comovingDensityGoal (completeness_model c)))) weights'
      in get_inhom_contained_loop ang2pix keelin s zGrid nside rest
           (st1, allpixels @ [pix_column d nside], allweights @ [weights''], catweightTotal'))"

text \<open>\<open>get_inhom_contained\<close>: \<open>np.vstack\<close> of an empty list raises \<open>ValueError\<close>.\<close>

definition get_inhom_contained ::
  "(int \<Rightarrow> npfloat \<Rightarrow> npfloat \<Rightarrow> int) \<Rightarrow> (npfloat list \<Rightarrow> galaxy \<Rightarrow> nat \<Rightarrow> npfloat) \<Rightarrow>
   GalCompleted \<Rightarrow> npfloat list \<Rightarrow> int \<Rightarrow> state \<Rightarrow>
   error + (state \<times> int list \<times> npfloat list list)" where
  "get_inhom_contained ang2pix keelin s zGrid nside st =
     (let (st', allpixels, allweights, catweightTotal) =
            get_inhom_contained_loop ang2pix keelin s zGrid nside
              (zip (galcats s) (catweights s)) (st, [], [], Fin 0)
      in if allweights = [] then Inl ValueError
         else Inr (st', concat allpixels,
                   map (map (\<lambda>x. np_div x catweightTotal)) (concat allweights)))"

subsection \<open>Inhomogeneous part at the redshift medians\<close>

text \<open>\<open>c.completeness(d.theta.to_numpy(), d.phi.to_numpy(), redshifts, oneZPerAngle =
  True)\<close>: the divisor of \<open>weights /= completeness\<close> in \<open>get_inhom\<close>.\<close>

definition point_completeness :: "GalCat \<Rightarrow> frame \<Rightarrow> npfloat list" where
  "point_completeness c d = map (\<lambda>g. completeness c (theta g) (phi g) (z g)) (rows d)"

fun get_inhom_loop ::
  "(int \<Rightarrow> npfloat \<Rightarrow> npfloat \<Rightarrow> int) \<Rightarrow> GalCompleted \<Rightarrow> int \<Rightarrow> (GalCat \<times> npfloat) list \<Rightarrow>
   state \<times> int list list \<times> npfloat list list \<times> npfloat list list \<times> npfloat \<Rightarrow>
   state \<times> int list list \<times> npfloat list list \<times> npfloat list list \<times> npfloat" where
  "get_inhom_loop ang2pix s nside [] acc = acc"
| "get_inhom_loop ang2pix s nside ((c, wt) # rest)
     (st, allpixels, allredshifts, allweights, catweightTotal) =
     (let st1 = cache_pix ang2pix nside (selectedData c) st;
          d = frames st1 ! selectedData c;
          weights = map w (rows d);
          redshifts = map z (rows d);
          (weights', catweightTotal') =
            (if additive s \<and> length (galcats s) = 1 then (weights, wt)
             else
               (let compl = point_completeness c d;
                    catweight = np_mul wt (np_mean compl)
                in (map2 (\<lambda>x cp. np_mul (np_mul (np_div x cp) (confidence s cp)) catweight)
                      weights compl,
                    np_add catweightTotal catweight)));
          weights'' = map (\<lambda>x. np_div x (comovingDensityGoal (completeness_model c))) weights'
      in get_inhom_loop ang2pix s nside rest
           (st1, allpixels @ [pix_column d nside], allredshifts @ [redshifts],
            allweights @ [weights''], catweightTotal'))"

text \<open>\<open>get_inhom\<close>: \<open>np.hstack\<close> of an empty list raises \<open>ValueError\<close>.\<close>

definition get_inhom ::
  "(int \<Rightarrow> npfloat \<Rightarrow> npfloat \<Rightarrow> int) \<Rightarrow> GalCompleted \<Rightarrow> int \<Rightarrow> state \<Rightarrow>
   error + (state \<times> int list \<times> npfloat list \<times> npfloat list)" where
  "get_inhom ang2pix s nside st =
     (let (st', allpixels, allredshifts, allweights, catweightTotal) =
            get_inhom_loop ang2pix s nside (zip (galcats s) (catweights s)) (st, [], [], [], Fin 0)
      in if allweights = [] then Inl ValueError
         else Inr (st', concat allpixels, concat allredshifts,
                   map (\<lambda>x. np_div x catweightTotal) (concat allweights)))"

subsection \<open>Homogeneous part\<close>

text \<open>
  \<open>c.completeness(theta, phi, z, oneZPerAngle = True)\<close> at the query points, paired
  point by point. What the completeness model does with arrays of unequal length is
  outside the sources; the model reports it as a shape error.
\<close>

definition query_completeness ::
  "GalCat \<Rightarrow> npfloat list \<Rightarrow> npfloat list \<Rightarrow> npfloat list \<Rightarrow> error + npfloat list" where
  "query_completeness c th ph zs =
     (if length th = length ph \<and> length ph = length zs
      then Inr (map (\<lambda>(t, p, zz). completeness c t p zz) (zip th (zip ph zs)))
      else Inl ValueError)"

fun eval_hom_loop ::
  "GalCompleted \<Rightarrow> npfloat list \<Rightarrow> npfloat list \<Rightarrow> npfloat list \<Rightarrow> (GalCat \<times> npfloat) list \<Rightarrow>
   npfloat list \<times> npfloat \<Rightarrow> error + (npfloat list \<times> npfloat)" where
  "eval_hom_loop s th ph zs [] acc = Inr acc"
| "eval_hom_loop s th ph zs ((c, wt) # rest) (ret, catweightTotal) =
     (case query_completeness c th ph zs of
        Inl e \<Rightarrow> Inl e
      | Inr compl \<Rightarrow>
          (let catweight = np_mul wt (np_mean compl);
               retcat = map (\<lambda>cp. np_mul (np_sub (Fin 1) (confidence s cp)) catweight) compl
           in eval_hom_loop s th ph zs rest
                (map2 np_add ret retcat, np_add catweightTotal catweight)))"

definition eval_hom ::
  "GalCompleted \<Rightarrow> npfloat list \<Rightarrow> npfloat list \<Rightarrow> npfloat list \<Rightarrow> bool \<Rightarrow> error + npfloat list" where
  "eval_hom s th ph zs MC =
     (if MC \<and> length th \<noteq> length zs then Inl AssertionError
      else
        (case eval_hom_loop s th ph zs (zip (galcats s) (catweights s))
                (replicate (length th) (Fin 0), Fin 0) of
           Inl e \<Rightarrow> Inl e
         | Inr (ret, catweightTotal) \<Rightarrow> Inr (map (\<lambda>x. np_div x catweightTotal) ret)))"

section \<open>Volume-prior correction\<close>

text \<open>
  \<open>parmap\<close> (module \<open>globals\<close>): the workers put \<open>(i, f(x))\<close> on the output queue as
  they finish. \<open>order\<close> lists the indices in the order in which their results arrive;
  the results are sorted by index before the indices are dropped (\<open>sorted\<close> compares
  the pairs by their first component, and no two indices are equal).
\<close>

definition parmap :: "('a \<Rightarrow> 'b) \<Rightarrow> 'a list \<Rightarrow> nat list \<Rightarrow> 'b list" where
  "parmap f X order =
     (let res = map (\<lambda>i. (i, f (X ! i))) order
      in map snd (sort_key fst res))"

type_synonym quantiles = "npfloat \<times> npfloat \<times> npfloat \<times> npfloat \<times> npfloat"

text \<open>
  Modelled from the spec: \<open>convolve_bounded_keelin_3\<close> (module \<open>keelin\<close>) is not part
  of the sources. For each row it convolves the row's five-quantile distribution with
  the Jacobian and produces five corrected quantile values; \<open>conv func g\<close> is the
  result row for the galaxy \<open>g\<close>.

  \<open>convolve_batch\<close>: the rows \<open>df.iloc[start:stop]\<close> of batch \<open>batchId\<close>.
  \<open>int(N/nBatches)\<close> is the integer quotient (the float quotient is exact enough for
  every table length below \<open>2^53\<close>).
\<close>

definition convolve_batch ::
  "('f \<Rightarrow> galaxy \<Rightarrow> quantiles) \<Rightarrow> galaxy list \<Rightarrow> 'f \<Rightarrow> nat \<Rightarrow> nat \<Rightarrow> quantiles list" where
  "convolve_batch conv df func batchId nBatches =
     (let N = length df;
          n = N div nBatches;
          start = n * batchId;
          stop = (if int batchId = int nBatches - 1 then N else n * (batchId + 1));
          batch = take (stop - start) (drop start df)
      in map (conv func) batch)"

text \<open>\<open>res = np.vstack(parmap(lambda b: convolve_batch(df, func, b, nBatches),
  range(nBatches)))\<close>\<close>

definition vol_prior_res ::
  "('f \<Rightarrow> galaxy \<Rightarrow> quantiles) \<Rightarrow> galaxy list \<Rightarrow> 'f \<Rightarrow> nat \<Rightarrow> nat list \<Rightarrow> quantiles list" where
  "vol_prior_res conv df func nBatches order =
     concat (parmap (\<lambda>b. convolve_batch conv df func b nBatches) [0..<nBatches] order)"

definition unfeasible :: "quantiles \<Rightarrow> bool" where
  "unfeasible r =
     (case r of (r0, r1, r2, r3, r4) \<Rightarrow>
        np_ge r0 r1 \<or> np_ge r1 r2 \<or> np_ge r2 r3 \<or> np_ge r3 r4 \<or> np_lt r0 (Fin 0))"

definition set_quantiles :: "galaxy \<Rightarrow> quantiles \<Rightarrow> galaxy" where
  "set_quantiles g r =
     (case r of (r0, r1, r2, r3, r4) \<Rightarrow>
        g\<lparr>z_lowerbound := r0, z_lower := r1, z := r2, z_upper := r3, z_upperbound := r4\<rparr>)"

text \<open>
  \<open>np.max(df.z_upperbound)\<close> on a dataframe column: pandas leaves the \<open>nan\<close> entries
  out, and the result is \<open>nan\<close> when nothing is left (an empty table, or a column of
  \<open>nan\<close> only).
\<close>

definition np_maximum :: "npfloat \<Rightarrow> npfloat \<Rightarrow> npfloat" where
  "np_maximum a b = (if np_ge a b then a else b)"

definition series_max :: "npfloat list \<Rightarrow> npfloat" where
  "series_max xs =
     (case filter (\<lambda>x. x \<noteq> NaN) xs of [] \<Rightarrow> NaN | y # ys \<Rightarrow> foldl np_maximum y ys)"

text \<open>
  \<open>GalCat.include_vol_prior\<close> on the dataframe at address \<open>df\<close>. Before the batches
  are made, the interpolated Jacobian \<open>func\<close> is built with astropy and scipy on
  \<open>zGrid = np.linspace(0, 1.4*np.max(df.z_upperbound), 500)\<close>. When the maximum is not
  a finite number the grid holds \<open>nan\<close> and \<open>interpolate.interp1d\<close> raises
  \<open>ValueError\<close>, before any column is written. For a finite maximum \<open>m\<close> the
  construction is the parameter \<open>jacobian m\<close>, which may raise as well. Assigning a
  column of another length than the table raises \<open>ValueError\<close>. The result is the
  address of the new, filtered dataframe.
\<close>

definition include_vol_prior ::
  "('f \<Rightarrow> galaxy \<Rightarrow> quantiles) \<Rightarrow> (real \<Rightarrow> error + 'f) \<Rightarrow> nat list \<Rightarrow> nat \<Rightarrow> state \<Rightarrow>
   error + (nat \<times> state)" where
  "include_vol_prior conv jacobian order df st =
     (let t = frames st ! df;
          batchSize = 10000;
          nBatches = max (length (rows t) div batchSize) 1
      in case (case series_max (map z_upperbound (rows t)) of
                 Fin m \<Rightarrow> jacobian m
               | PInf \<Rightarrow> Inl ValueError
               | NInf \<Rightarrow> Inl ValueError
               | NaN \<Rightarrow> Inl ValueError) of
           Inl e \<Rightarrow> Inl e
         | Inr func \<Rightarrow>
             (let res = vol_prior_res conv (rows t) func nBatches order;
                  msk = map unfeasible res
              in if length res \<noteq> length (rows t) then Inl ValueError
                 else
                   (let t' = t\<lparr>rows := map2 set_quantiles (rows t) res\<rparr>;
                        st1 = st\<lparr>frames := (frames st)[df := t']\<rparr>
                    in Inr (alloc (frame_mask t' (map Not msk)) st1))))"

text \<open>Reading the five quantile columns of a row, and the properties of a row of
  quantiles that the statements below use.\<close>

definition quantiles_of :: "galaxy \<Rightarrow> quantiles" where
  "quantiles_of g = (z_lowerbound g, z_lower g, z g, z_upper g, z_upperbound g)"

definition strictly_increasing :: "quantiles \<Rightarrow> bool" where
  "strictly_increasing r =
     (case r of (r0, r1, r2, r3, r4) \<Rightarrow>
        np_lt r0 r1 \<and> np_lt r1 r2 \<and> np_lt r2 r3 \<and> np_lt r3 r4)"

definition ordered_quantiles :: "quantiles \<Rightarrow> bool" where
  "ordered_quantiles r =
     (case r of (r0, r1, r2, r3, r4) \<Rightarrow>
        np_ge r1 r0 \<and> np_ge r2 r1 \<and> np_ge r3 r2 \<and> np_ge r4 r3)"

text \<open>The rows of a table with the five quantile columns overwritten by the row-wise
  convolution.\<close>

definition corrected_rows ::
  "('f \<Rightarrow> galaxy \<Rightarrow> quantiles) \<Rightarrow> 'f \<Rightarrow> galaxy list \<Rightarrow> galaxy list" where
  "corrected_rows conv func gs = map (\<lambda>g. set_quantiles g (conv func g)) gs"

section \<open>Catalogue weights\<close>




section \<open>Example data\<close>

text \<open>A galaxy at polar angle \<open>th\<close> with median redshift \<open>zz\<close>, quantiles at
  distance 0.01 and 0.02 from it, and weight \<open>wt\<close>; a table without pixel columns; the
  empty store.\<close>

definition galaxy_at :: "real \<Rightarrow> real \<Rightarrow> real \<Rightarrow> galaxy" where
  "galaxy_at th zz wt =
     \<lparr>theta = Fin th, phi = Fin 0, z = Fin zz,
      z_lower = Fin (zz - 1 / 100), z_upper = Fin (zz + 1 / 100),
      z_lowerbound = Fin (zz - 2 / 100), z_upperbound = Fin (zz + 2 / 100),
      w = Fin wt\<rparr>"

definition table :: "galaxy list \<Rightarrow> frame" where
  "table gs = \<lparr>rows = gs, pixcols = []\<rparr>"

definition empty_store :: state where
  "empty_store = \<lparr>frames = [], ang2pix_calls = []\<rparr>"

text \<open>A convolution that leaves the quantiles as they are (a flat Jacobian).\<close>

definition flat_conv :: "unit \<Rightarrow> galaxy \<Rightarrow> quantiles" where
  "flat_conv func g = quantiles_of g"

text \<open>A convolution that moves every quantile down by 0.05, and the Jacobian of
  both example convolutions.\<close>

definition shift_conv :: "unit \<Rightarrow> galaxy \<Rightarrow> quantiles" where
  "shift_conv func g =
     (np_sub (z_lowerbound g) (Fin (5 / 100)), np_sub (z_lower g) (Fin (5 / 100)),
      np_sub (z g) (Fin (5 / 100)), np_sub (z_upper g) (Fin (5 / 100)),
      np_sub (z_upperbound g) (Fin (5 / 100)))"

definition unit_jacobian :: "real \<Rightarrow> error + unit" where
  "unit_jacobian m = Inr ()"

text \<open>A galaxy without redshift information: its five quantile columns are \<open>nan\<close>.\<close>

definition nan_galaxy :: galaxy where
  "nan_galaxy =
     \<lparr>theta = Fin 0, phi = Fin 0, z = NaN, z_lower = NaN, z_upper = NaN,
      z_lowerbound = NaN, z_upperbound = NaN, w = Fin 1\<rparr>"

text \<open>
  A pixelisation with two pixels (polar angle below 1, or not), a discretisation that
  puts mass \<open>1/2\<close> in every grid cell, and a completeness model whose adapter value
  (model plus floor) is exactly 1 everywhere, with density goal 1.
\<close>

definition theta_pix :: "int \<Rightarrow> npfloat \<Rightarrow> npfloat \<Rightarrow> int" where
  "theta_pix nside th ph = (if np_lt th (Fin 1) then 0 else 1)"

definition flat_keelin :: "npfloat list \<Rightarrow> galaxy \<Rightarrow> nat \<Rightarrow> npfloat" where
  "flat_keelin zGrid g j = Fin (1 / 2)"

definition full_model :: Completeness where
  "full_model = \<lparr>get = (\<lambda>th ph zz. Fin (1 - 1 / 10 ^ 9)), comovingDensityGoal = Fin 1\<rparr>"

text \<open>
  Catalogue A holds one galaxy in pixel 0, catalogue B one galaxy in pixel 1. An
  interpolated aggregator holds A alone (catalogue weight 0.7), or A and B (catalogue
  weights 0.7 and 0.3); the area is restricted to pixel 0 at resolution 32, so that the
  selection of B is empty.
\<close>

definition catalogue_A :: "GalCat \<times> state" where
  "catalogue_A = GalCat_init (table [galaxy_at 0 (1 / 10) 2]) full_model empty_store"

definition catalogue_B :: "GalCat \<times> state" where
  "catalogue_B = GalCat_init (table [galaxy_at 1 (1 / 10) 2]) full_model (snd catalogue_A)"

definition catalogue_A_alone :: "GalCompleted \<times> state" where
  "catalogue_A_alone =
     GalCompleted_select_area theta_pix [0] 32
       (add_cat (fst catalogue_A) (Fin (7 / 10)) (GalCompleted_init ''mix''))
       (snd catalogue_A)"

definition catalogues_A_and_B :: "GalCompleted \<times> state" where
  "catalogues_A_and_B =
     GalCompleted_select_area theta_pix [0] 32
       (add_cat (fst catalogue_B) (Fin (3 / 10))
          (add_cat (fst catalogue_A) (Fin (7 / 10)) (GalCompleted_init ''mix'')))
       (snd catalogue_B)"

text \<open>The pixels and weights of a result of \<open>get_inhom_contained\<close>, and the store
  after a call of \<open>get_inhom\<close>.\<close>

definition pixels_and_weights ::
  "error + (state \<times> int list \<times> npfloat list list) \<Rightarrow> error + (int list \<times> npfloat list list)" where
  "pixels_and_weights r = (case r of Inl e \<Rightarrow> Inl e | Inr (st, pw) \<Rightarrow> Inr pw)"

definition state_of :: "error + (state \<times> 'a) \<Rightarrow> state \<Rightarrow> state" where
  "state_of r st = (case r of Inr (st', x) \<Rightarrow> st' | Inl e \<Rightarrow> st)"

text \<open>
  One catalogue of two galaxies in an aggregator: a redshift selection, an
  aggregation at resolution 32, an area selection at resolution 64, and the
  aggregation at resolution 32 again. The full table is at address 0.
\<close>

definition two_galaxies :: "GalCat \<times> state" where
  "two_galaxies =
     GalCat_init (table [galaxy_at 0 (1 / 10) 1, galaxy_at 1 (3 / 10) 1]) full_model empty_store"

definition after_z_range :: "GalCompleted \<times> state" where
  "after_z_range =
     GalCompleted_set_z_range_for_selection (Fin 0) (Fin (2 / 10))
       (add_cat (fst two_galaxies) (Fin 1) (GalCompleted_init ''mix'')) (snd two_galaxies)"

definition after_first_aggregation :: state where
  "after_first_aggregation =
     state_of (get_inhom theta_pix (fst after_z_range) 32 (snd after_z_range)) (snd after_z_range)"

definition after_select_area :: "GalCompleted \<times> state" where
  "after_select_area =
     GalCompleted_select_area theta_pix [0, 1] 64 (fst after_z_range) after_first_aggregation"

definition after_second_aggregation :: state where
  "after_second_aggregation =
     state_of (get_inhom theta_pix (fst after_select_area) 32 (snd after_select_area))
       (snd after_select_area)"











section \<open>Properties of the confidence function and of the completeness floor\<close>

lemma confidence_interpolated_Fin:
  assumes "\<not> additive s" "\<not> multiplicative s"
  shows "confidence s (Fin x) = Fin (exp (5 / 100 * (1 - 1 / min (max x (2 / 1000)) 1)))"
  using assms by (simp add: confidence_def np_sub_def Let_def)


text \<open>
  Claim C6. A completion-mode string other than \<open>add\<close> and \<open>mult\<close> constructs the
  same aggregator as the default \<open>mix\<close> (construction has no failing branch), and its
  confidence function is the interpolated one.
\<close>

theorem unrecognised_mode_is_interpolated:
  assumes "completionType \<noteq> ''add''" "completionType \<noteq> ''mult''"
  shows "GalCompleted_init completionType = GalCompleted_init ''mix'' \<and>
         (\<forall>compl. confidence (GalCompleted_init completionType) compl =
            np_exp (np_mul (Fin (5 / 100))
              (np_sub (Fin 1) (np_div (Fin 1) (np_clip compl (2 / 1000) 1)))))"
  using assms by (simp add: GalCompleted_init_def confidence_def)

theorem unrecognised_mode_is_interpolated_witness:
  "''foo'' \<noteq> ''add'' \<and> ''foo'' \<noteq> ''mult'' \<and>
   GalCompleted_init ''foo'' = GalCompleted_init ''mix'' \<and>
   (\<forall>compl. confidence (GalCompleted_init ''foo'') compl =
      np_exp (np_mul (Fin (5 / 100))
        (np_sub (Fin 1) (np_div (Fin 1) (np_clip compl (2 / 1000) 1)))))"
proof -
  have a: "''foo'' \<noteq> ''add''" and b: "''foo'' \<noteq> ''mult''" by simp_all
  from unrecognised_mode_is_interpolated [OF a b] a b show ?thesis by blast
qed

text \<open>
  Claim C7. In interpolated mode the confidence of a finite completeness \<open>x\<close> is
  \<open>exp (0.05 * (1 - 1 / clip x))\<close> with \<open>x\<close> clipped to \<open>[2e-3, 1]\<close>; it is
  non-decreasing on \<open>(0, 1]\<close>, it is \<open>1\<close> at \<open>1\<close> and \<open>exp (0.05 * (1 - 500))\<close> at
  \<open>2e-3\<close>.
\<close>

theorem confidence_interpolated_monotone:
  assumes "\<not> additive s" "\<not> multiplicative s"
  shows "(\<forall>a b. 0 < a \<and> a \<le> b \<and> b \<le> 1 \<longrightarrow>
            np_ge (confidence s (Fin b)) (confidence s (Fin a)))
       \<and> confidence s (Fin 1) = Fin 1
       \<and> confidence s (Fin (2 / 1000)) = Fin (exp (5 / 100 * (1 - 500)))
       \<and> (\<forall>x. confidence s (Fin x) =
                 Fin (exp (5 / 100 * (1 - 1 / min (max x (2 / 1000)) 1))))"
proof (intro conjI allI impI)
  fix a b :: real
  assume h: "0 < a \<and> a \<le> b \<and> b \<le> 1"
  let ?ca = "min (max a (2 / 1000)) 1" and ?cb = "min (max b (2 / 1000)) 1"
  have pos: "0 < ?ca" by simp
  have le: "?ca \<le> ?cb" using h by (simp add: min_def max_def)
  have "1 / ?cb \<le> 1 / ?ca" using pos le by (simp add: frac_le)
  then show "np_ge (confidence s (Fin b)) (confidence s (Fin a))"
    by (simp add: confidence_interpolated_Fin [OF assms])
next
  show "confidence s (Fin 1) = Fin 1"
    by (simp add: confidence_interpolated_Fin [OF assms])
  show "confidence s (Fin (2 / 1000)) = Fin (exp (5 / 100 * (1 - 500)))"
    by (simp add: confidence_interpolated_Fin [OF assms])
  show "\<And>x. confidence s (Fin x) = Fin (exp (5 / 100 * (1 - 1 / min (max x (2 / 1000)) 1)))"
    by (rule confidence_interpolated_Fin [OF assms])
qed

theorem confidence_interpolated_monotone_witness:
  "\<not> additive (GalCompleted_init ''mix'') \<and> \<not> multiplicative (GalCompleted_init ''mix'')
   \<and> (0::real) < 1 / 2 \<and> (1 / 2 :: real) \<le> 1
   \<and> np_ge (confidence (GalCompleted_init ''mix'') (Fin 1))
            (confidence (GalCompleted_init ''mix'') (Fin (1 / 2)))
   \<and> confidence (GalCompleted_init ''mix'') (Fin 1) = Fin 1
   \<and> confidence (GalCompleted_init ''mix'') (Fin (2 / 1000)) = Fin (exp (5 / 100 * (1 - 500)))"
proof -
  have a: "\<not> additive (GalCompleted_init ''mix'')"
    and b: "\<not> multiplicative (GalCompleted_init ''mix'')"
    by (simp_all add: GalCompleted_init_def)
  have c: "(0::real) < 1 / 2 \<and> (1 / 2 :: real) \<le> 1 \<and> (1::real) \<le> 1" by simp
  from confidence_interpolated_monotone [OF a b] a b c show ?thesis by blast
qed



section \<open>Batches of the volume-prior correction\<close>

lemma filter_eq_distinct:
  assumes "distinct xs" "a \<in> set xs"
  shows "filter (\<lambda>i. a = i) xs = [a]"
  using assms by (induction xs) (auto simp add: filter_id_conv filter_empty_conv)

lemma parmap_in_order:
  assumes "mset order = mset [0..<length X]"
  shows "parmap f X order = map f X"
proof -
  let ?g = "\<lambda>i. (i, f (X ! i))"
  let ?ys = "map ?g [0..<length X]"
  have d: "distinct order"
    using assms by (metis distinct_upt mset_eq_imp_distinct_iff)
  have s: "set order = {0..<length X}"
    using assms by (metis mset_eq_setD set_upt)
  have "sort_key fst (map ?g order) = ?ys"
  proof (rule properties_for_sort_key)
    show "mset ?ys = mset (map ?g order)" using assms by simp
    show "sorted (map fst ?ys)" by (simp add: comp_def)
    fix k assume "k \<in> set ?ys"
    then have k: "fst k < length X" by auto
    have "filter (\<lambda>x. fst k = fst x) ?ys = map ?g (filter (\<lambda>i. fst k = i) [0..<length X])"
      by (simp add: filter_map comp_def)
    also have "\<dots> = map ?g [fst k]"
      using k by (simp add: filter_eq_distinct)
    also have "\<dots> = map ?g (filter (\<lambda>i. fst k = i) order)"
      using k d s by (simp add: filter_eq_distinct)
    also have "\<dots> = filter (\<lambda>x. fst k = fst x) (map ?g order)"
      by (simp add: filter_map comp_def)
    finally show "filter (\<lambda>x. fst k = fst x) ?ys = filter (\<lambda>x. fst k = fst x) (map ?g order)" .
  qed
  then have "parmap f X order = map snd ?ys"
    by (simp add: parmap_def)
  also have "\<dots> = map f (map (\<lambda>i. X ! i) [0..<length X])"
    by (simp add: comp_def)
  also have "\<dots> = map f X"
    by (simp add: map_nth)
  finally show ?thesis .
qed

lemma concat_chunks:
  assumes "n * k \<le> length xs"
  shows "concat (map (\<lambda>b. take n (drop (n * b) xs)) [0..<k]) = take (n * k) xs"
  using assms
proof (induction k)
  case 0
  then show ?case by simp
next
  case (Suc k)
  then have ih: "concat (map (\<lambda>b. take n (drop (n * b) xs)) [0..<k]) = take (n * k) xs"
    by simp
  have "take (n * Suc k) xs = take (n * k + n) xs"
    by (simp add: add.commute)
  also have "\<dots> = take (n * k) xs @ take n (drop (n * k) xs)"
    by (rule take_add)
  finally have split: "take (n * Suc k) xs = take (n * k) xs @ take n (drop (n * k) xs)" .
  have "concat (map (\<lambda>b. take n (drop (n * b) xs)) [0..<Suc k])
      = concat (map (\<lambda>b. take n (drop (n * b) xs)) [0..<k]) @ take n (drop (n * k) xs)"
    by simp
  with ih split show ?case
    by (simp only:)
qed

lemma batches_cover:
  assumes "1 \<le> nBatches"
  shows "concat (map (\<lambda>b. convolve_batch conv df func b nBatches) [0..<nBatches])
       = map (conv func) df"
proof -
  obtain k where k: "nBatches = Suc k" using assms by (cases nBatches) auto
  let ?n = "length df div nBatches"
  have le: "?n * k \<le> length df"
  proof -
    have "?n * k \<le> ?n * nBatches" using k by simp
    also have "\<dots> \<le> length df" by simp
    finally show ?thesis .
  qed
  have early: "convolve_batch conv df func b nBatches
      = map (conv func) (take ?n (drop (?n * b) df))" if "b < k" for b
    using that k by (simp add: convolve_batch_def Let_def)
  have last: "convolve_batch conv df func k nBatches = map (conv func) (drop (?n * k) df)"
    using k by (simp add: convolve_batch_def Let_def)
  have "concat (map (\<lambda>b. convolve_batch conv df func b nBatches) [0..<k])
      = concat (map (\<lambda>b. map (conv func) (take ?n (drop (?n * b) df))) [0..<k])"
    using early by (auto intro!: arg_cong [where f = concat])
  also have "\<dots> = map (conv func) (concat (map (\<lambda>b. take ?n (drop (?n * b) df)) [0..<k]))"
    by (simp add: map_concat comp_def)
  also have "\<dots> = map (conv func) (take (?n * k) df)"
    using le by (simp add: concat_chunks)
  finally have "concat (map (\<lambda>b. convolve_batch conv df func b nBatches) [0..<Suc k])
      = map (conv func) (take (?n * k) df) @ map (conv func) (drop (?n * k) df)"
    using last by simp
  then show ?thesis
    using k by (simp flip: map_append)
qed

lemma vol_prior_res_rowwise:
  assumes "1 \<le> nBatches" "mset order = mset [0..<nBatches]"
  shows "vol_prior_res conv df func nBatches order = map (conv func) df"
  using assms by (simp add: vol_prior_res_def parmap_in_order batches_cover)

text \<open>
  Claim C4. For every table and every number \<open>nBatches \<ge> 1\<close> of batches, whatever the
  order in which the workers finish, \<open>parmap\<close> returns the batch results in batch
  order, and the stacked result is the row-wise convolution of the table in the
  original row order: the same as with one batch.
\<close>

theorem batching_preserves_rows:
  assumes "1 \<le> nBatches" "mset order = mset [0..<nBatches]"
  shows "parmap (\<lambda>b. convolve_batch conv df func b nBatches) [0..<nBatches] order
           = map (\<lambda>b. convolve_batch conv df func b nBatches) [0..<nBatches]
       \<and> vol_prior_res conv df func nBatches order = map (conv func) df
       \<and> vol_prior_res conv df func nBatches order = vol_prior_res conv df func 1 [0]"
proof -
  have one: "vol_prior_res conv df func 1 [0] = map (conv func) df"
    by (rule vol_prior_res_rowwise) simp_all
  show ?thesis
    using assms one by (simp add: parmap_in_order vol_prior_res_rowwise)
qed

theorem batching_preserves_rows_witness:
  "(1::nat) \<le> 2 \<and> mset [1, 0] = mset [0..<2]
   \<and> vol_prior_res flat_conv [galaxy_at 0 (1 / 10) 1, galaxy_at 0 (2 / 10) 1, galaxy_at 0 (3 / 10) 1]
        () 2 [1, 0]
     = map (flat_conv ()) [galaxy_at 0 (1 / 10) 1, galaxy_at 0 (2 / 10) 1, galaxy_at 0 (3 / 10) 1]
   \<and> vol_prior_res flat_conv [galaxy_at 0 (1 / 10) 1, galaxy_at 0 (2 / 10) 1, galaxy_at 0 (3 / 10) 1]
        () 2 [1, 0]
     = vol_prior_res flat_conv [galaxy_at 0 (1 / 10) 1, galaxy_at 0 (2 / 10) 1, galaxy_at 0 (3 / 10) 1]
        () 1 [0]"
proof -
  have a: "(1::nat) \<le> 2" by simp
  have b: "mset [1, 0] = mset [0..<2]" by (simp add: upt_rec)
  from batching_preserves_rows [OF a b, where conv = flat_conv and func = "()"
      and df = "[galaxy_at 0 (1 / 10) 1, galaxy_at 0 (2 / 10) 1, galaxy_at 0 (3 / 10) 1]"] a b
  show ?thesis by blast
qed

section \<open>The filter of the volume-prior correction\<close>

lemma take_mask_map:
  "take_mask (map p xs) (map h xs) = map h (filter p xs)"
  by (induction xs) (simp_all add: take_mask_def)

lemma quantiles_of_set_quantiles: "quantiles_of (set_quantiles g r) = r"
  by (cases r) (simp add: quantiles_of_def set_quantiles_def)

lemma map2_same: "map2 f xs (map h xs) = map (\<lambda>x. f x (h x)) xs"
  by (induction xs) simp_all

lemma include_vol_prior_raises:
  assumes "\<And>m. series_max (map z_upperbound (rows (frames st ! df))) \<noteq> Fin m"
  shows "include_vol_prior conv jacobian order df st = Inl ValueError"
proof (cases "series_max (map z_upperbound (rows (frames st ! df)))")
  case (Fin m)
  with assms show ?thesis by blast
qed (simp_all add: include_vol_prior_def Let_def)

lemma include_vol_prior_jacobian_raises:
  assumes "series_max (map z_upperbound (rows (frames st ! df))) = Fin m"
    and "jacobian m = Inl e"
  shows "include_vol_prior conv jacobian order df st = Inl e"
  using assms by (simp add: include_vol_prior_def Let_def)

lemma include_vol_prior_result:
  fixes conv :: "'f \<Rightarrow> galaxy \<Rightarrow> quantiles" and jacobian :: "real \<Rightarrow> error + 'f"
  assumes valid: "df < length (frames st)"
    and perm: "mset order = mset [0..<max (length (rows (frames st ! df)) div 10000) 1]"
    and zmax: "series_max (map z_upperbound (rows (frames st ! df))) = Fin m"
    and jac: "jacobian m = Inr func"
  defines "corrected \<equiv> corrected_rows conv func (rows (frames st ! df))"
  shows "\<exists>st'. include_vol_prior conv jacobian order df st = Inr (length (frames st), st')
           \<and> length (frames st') = Suc (length (frames st))
           \<and> rows (frames st' ! df) = corrected
           \<and> rows (frames st' ! length (frames st))
               = filter (\<lambda>g. \<not> unfeasible (quantiles_of g)) corrected
           \<and> (\<forall>r. r < length (frames st) \<longrightarrow> r \<noteq> df \<longrightarrow> frames st' ! r = frames st ! r)"
proof -
  let ?t = "frames st ! df"
  let ?nB = "max (length (rows ?t) div 10000) 1"
  have "vol_prior_res conv (rows ?t) func ?nB order = map (conv func) (rows ?t)"
    using perm by (intro vol_prior_res_rowwise) simp_all
  then have res: "vol_prior_res conv (rows ?t) func (max (length (rows ?t) div 10000) (Suc 0)) order
      = map (conv func) (rows ?t)"
    by simp
  let ?t' = "?t\<lparr>rows := corrected\<rparr>"
  let ?sel = "frame_mask ?t' (map Not (map unfeasible (map (conv func) (rows ?t))))"
  let ?st' = "st\<lparr>frames := (frames st)[df := ?t'] @ [?sel]\<rparr>"
  have run: "include_vol_prior conv jacobian order df st = Inr (length (frames st), ?st')"
    by (simp add: include_vol_prior_def Let_def zmax jac res alloc_def map2_same corrected_def
        corrected_rows_def)
  have "rows ?sel = take_mask (map (\<lambda>g. \<not> unfeasible (conv func g)) (rows ?t))
                      (map (\<lambda>g. set_quantiles g (conv func g)) (rows ?t))"
    by (simp add: frame_mask_def corrected_def corrected_rows_def comp_def)
  also have "\<dots> = map (\<lambda>g. set_quantiles g (conv func g))
                     (filter (\<lambda>g. \<not> unfeasible (conv func g)) (rows ?t))"
    by (rule take_mask_map)
  also have "\<dots> = filter (\<lambda>g. \<not> unfeasible (quantiles_of g)) corrected"
    by (simp add: corrected_def corrected_rows_def filter_map comp_def quantiles_of_set_quantiles)
  finally have sel: "rows ?sel = filter (\<lambda>g. \<not> unfeasible (quantiles_of g)) corrected" .
  have a: "rows (frames ?st' ! df) = corrected"
    using valid by (simp add: nth_append)
  have b: "rows (frames ?st' ! length (frames st)) = filter (\<lambda>g. \<not> unfeasible (quantiles_of g)) corrected"
    using sel by (simp add: nth_append)
  have c: "\<forall>r. r < length (frames st) \<longrightarrow> r \<noteq> df \<longrightarrow> frames ?st' ! r = frames st ! r"
    by (simp add: nth_append)
  have d: "length (frames ?st') = Suc (length (frames st))" by simp
  from run a b c d show ?thesis by blast
qed

text \<open>
  Claim C9. The call raises, before any column is written, when the Jacobian cannot be
  built (no maximum of \<open>z_upperbound\<close> that is a finite number, as for an empty table,
  or a failure in its construction). Otherwise \<open>include_vol_prior\<close> overwrites the five
  quantile columns of every row of the dataframe it is given, in place and before
  filtering, and returns a new dataframe: afterwards the caller's dataframe still has
  all its rows, with the corrected quantiles, also those that the filter removes from
  the result.
\<close>

theorem include_vol_prior_overwrites_caller_table:
  fixes conv :: "'f \<Rightarrow> galaxy \<Rightarrow> quantiles" and jacobian :: "real \<Rightarrow> error + 'f"
  assumes "df < length (frames st)"
    and "mset order = mset [0..<max (length (rows (frames st ! df)) div 10000) 1]"
  shows
   "case series_max (map z_upperbound (rows (frames st ! df))) of
      Fin m \<Rightarrow>
        (case jacobian m of
           Inl e \<Rightarrow> include_vol_prior conv jacobian order df st = Inl e
         | Inr func \<Rightarrow>
             (\<exists>r st'. include_vol_prior conv jacobian order df st = Inr (r, st')
                \<and> r \<noteq> df
                \<and> rows (frames st' ! df) = corrected_rows conv func (rows (frames st ! df))
                \<and> map quantiles_of (rows (frames st' ! df))
                    = map (conv func) (rows (frames st ! df))
                \<and> length (rows (frames st' ! df)) = length (rows (frames st ! df))
                \<and> rows (frames st' ! r)
                    = filter (\<lambda>g. \<not> unfeasible (quantiles_of g)) (rows (frames st' ! df))))
    | PInf \<Rightarrow> include_vol_prior conv jacobian order df st = Inl ValueError
    | NInf \<Rightarrow> include_vol_prior conv jacobian order df st = Inl ValueError
    | NaN \<Rightarrow> include_vol_prior conv jacobian order df st = Inl ValueError"
proof (cases "series_max (map z_upperbound (rows (frames st ! df)))")
  case (Fin m)
  show ?thesis
  proof (cases "jacobian m")
    case (Inl e)
    with Fin show ?thesis
      by (simp add: include_vol_prior_jacobian_raises)
  next
    case (Inr func)
    from include_vol_prior_result [where jacobian = jacobian and conv = conv, OF assms Fin Inr]
    obtain st' where run: "include_vol_prior conv jacobian order df st = Inr (length (frames st), st')"
      and a: "rows (frames st' ! df) = corrected_rows conv func (rows (frames st ! df))"
      and b: "rows (frames st' ! length (frames st))
               = filter (\<lambda>g. \<not> unfeasible (quantiles_of g))
                   (corrected_rows conv func (rows (frames st ! df)))"
      by blast
    have q: "map quantiles_of (corrected_rows conv func gs) = map (conv func) gs" for gs
      by (simp add: corrected_rows_def comp_def quantiles_of_set_quantiles)
    have l: "length (corrected_rows conv func gs) = length gs" for gs
      by (simp add: corrected_rows_def)
    have "length (frames st) \<noteq> df" using assms(1) by simp
    with run a b q l have "\<exists>r st'. include_vol_prior conv jacobian order df st = Inr (r, st')
                \<and> r \<noteq> df
                \<and> rows (frames st' ! df) = corrected_rows conv func (rows (frames st ! df))
                \<and> map quantiles_of (rows (frames st' ! df))
                    = map (conv func) (rows (frames st ! df))
                \<and> length (rows (frames st' ! df)) = length (rows (frames st ! df))
                \<and> rows (frames st' ! r)
                    = filter (\<lambda>g. \<not> unfeasible (quantiles_of g)) (rows (frames st' ! df))"
      by auto
    with Fin Inr show ?thesis by simp
  qed
next
  case PInf
  then show ?thesis by (simp add: include_vol_prior_raises)
next
  case NInf
  then show ?thesis by (simp add: include_vol_prior_raises)
next
  case NaN
  then show ?thesis by (simp add: include_vol_prior_raises)
qed

theorem include_vol_prior_overwrites_caller_table_witness:
  "0 < length (frames \<lparr>frames = [table [galaxy_at 0 (1 / 10) 1, galaxy_at 0 (5 / 100) 1]],
                         ang2pix_calls = []\<rparr>)
   \<and> mset [0] = mset [0..<max (length (rows (frames
         \<lparr>frames = [table [galaxy_at 0 (1 / 10) 1, galaxy_at 0 (5 / 100) 1]],
          ang2pix_calls = []\<rparr> ! 0)) div 10000) 1]
   \<and> series_max (map z_upperbound [galaxy_at 0 (1 / 10) 1, galaxy_at 0 (5 / 100) 1])
       = Fin (12 / 100)
   \<and> (\<exists>r st'. include_vol_prior shift_conv unit_jacobian [0] 0
          \<lparr>frames = [table [galaxy_at 0 (1 / 10) 1, galaxy_at 0 (5 / 100) 1]],
           ang2pix_calls = []\<rparr> = Inr (r, st')
        \<and> r \<noteq> 0
        \<and> map z_lowerbound (rows (frames st' ! 0)) = [Fin (3 / 100), Fin (- 2 / 100)]
        \<and> map z_lowerbound (rows (frames st' ! r)) = [Fin (3 / 100)])
   \<and> 0 < length (frames \<lparr>frames = [table []], ang2pix_calls = []\<rparr>)
   \<and> mset [0] = mset [0..<max (length (rows (frames
         \<lparr>frames = [table []], ang2pix_calls = []\<rparr> ! 0)) div 10000) 1]
   \<and> include_vol_prior shift_conv unit_jacobian [0] 0
        \<lparr>frames = [table []], ang2pix_calls = []\<rparr> = Inl ValueError"
proof -
  let ?st = "\<lparr>frames = [table [galaxy_at 0 (1 / 10) 1, galaxy_at 0 (5 / 100) 1]],
              ang2pix_calls = []\<rparr>"
  let ?emp = "\<lparr>frames = [table []], ang2pix_calls = []\<rparr>"
  have a: "0 < length (frames ?st)" by simp
  have b: "mset [0] = mset [0..<max (length (rows (frames ?st ! 0)) div 10000) 1]"
    by (simp add: table_def)
  have a0: "0 < length (frames ?emp)" by simp
  have b0: "mset [0] = mset [0..<max (length (rows (frames ?emp ! 0)) div 10000) 1]"
    by (simp add: table_def)
  have m: "series_max (map z_upperbound [galaxy_at 0 (1 / 10) 1, galaxy_at 0 (5 / 100) 1])
      = Fin (12 / 100)"
    by (simp add: series_max_def np_maximum_def galaxy_at_def)
  have m': "series_max (map z_upperbound (rows (frames ?st ! 0))) = Fin (12 / 100)"
    using m by (simp add: table_def)
  have m0: "series_max (map z_upperbound (rows (frames ?emp ! 0))) = NaN"
    by (simp add: series_max_def table_def)
  have c: "corrected_rows shift_conv () (rows (frames ?st ! 0))
      = [set_quantiles (galaxy_at 0 (1 / 10) 1)
           (Fin (3 / 100), Fin (4 / 100), Fin (5 / 100), Fin (6 / 100), Fin (7 / 100)),
         set_quantiles (galaxy_at 0 (5 / 100) 1)
           (Fin (- 2 / 100), Fin (- 1 / 100), Fin 0, Fin (1 / 100), Fin (2 / 100))]"
    by (simp add: corrected_rows_def table_def shift_conv_def galaxy_at_def np_sub_def)
  from include_vol_prior_overwrites_caller_table
    [where conv = shift_conv and jacobian = unit_jacobian, OF a b]
  have "\<exists>r st'. include_vol_prior shift_conv unit_jacobian [0] 0 ?st = Inr (r, st')
        \<and> r \<noteq> 0
        \<and> rows (frames st' ! 0) = corrected_rows shift_conv () (rows (frames ?st ! 0))
        \<and> map quantiles_of (rows (frames st' ! 0)) = map (shift_conv ()) (rows (frames ?st ! 0))
        \<and> length (rows (frames st' ! 0)) = length (rows (frames ?st ! 0))
        \<and> rows (frames st' ! r)
            = filter (\<lambda>g. \<not> unfeasible (quantiles_of g)) (rows (frames st' ! 0))"
    unfolding m' by (simp add: unit_jacobian_def)
  then obtain r st' where run: "include_vol_prior shift_conv unit_jacobian [0] 0 ?st = Inr (r, st')"
    and r: "r \<noteq> 0"
    and d: "rows (frames st' ! 0) = corrected_rows shift_conv () (rows (frames ?st ! 0))"
    and e: "rows (frames st' ! r) = filter (\<lambda>g. \<not> unfeasible (quantiles_of g)) (rows (frames st' ! 0))"
    by blast
  have m1: "map z_lowerbound (rows (frames st' ! 0)) = [Fin (3 / 100), Fin (- 2 / 100)]"
    unfolding d c by (simp add: set_quantiles_def)
  have m2: "map z_lowerbound (rows (frames st' ! r)) = [Fin (3 / 100)]"
    unfolding e d c by (simp add: set_quantiles_def quantiles_of_def unfeasible_def)
  have ex: "\<exists>r st'. include_vol_prior shift_conv unit_jacobian [0] 0 ?st = Inr (r, st')
        \<and> r \<noteq> 0
        \<and> map z_lowerbound (rows (frames st' ! 0)) = [Fin (3 / 100), Fin (- 2 / 100)]
        \<and> map z_lowerbound (rows (frames st' ! r)) = [Fin (3 / 100)]"
    using run r m1 m2 by (intro exI [of _ r] exI [of _ st'] conjI)
  from include_vol_prior_overwrites_caller_table
    [where conv = shift_conv and jacobian = unit_jacobian, OF a0 b0]
  have err: "include_vol_prior shift_conv unit_jacobian [0] 0 ?emp = Inl ValueError"
    unfolding m0 by simp
  from a b m ex a0 b0 err show ?thesis by (intro conjI)
qed

text \<open>
  Claim C5, on the code. On a table with an ordinary galaxy and a galaxy whose
  quantiles are \<open>nan\<close>, the Jacobian is built (the maximum leaves \<open>nan\<close> out), the
  corrected quantiles of the second row are \<open>nan\<close>, every comparison of the mask is
  false for it, and the row is returned although its quantiles are not ordered.
\<close>

theorem vol_prior_keeps_nan_row:
  "series_max (map z_upperbound [galaxy_at 0 (1 / 10) 1, nan_galaxy]) = Fin (12 / 100)
   \<and> include_vol_prior flat_conv unit_jacobian [0] 0
        \<lparr>frames = [table [galaxy_at 0 (1 / 10) 1, nan_galaxy]], ang2pix_calls = []\<rparr>
     = Inr (1, \<lparr>frames = [table [galaxy_at 0 (1 / 10) 1, nan_galaxy],
                           table [galaxy_at 0 (1 / 10) 1, nan_galaxy]],
                 ang2pix_calls = []\<rparr>)
   \<and> flat_conv () nan_galaxy = (NaN, NaN, NaN, NaN, NaN)
   \<and> \<not> unfeasible (NaN, NaN, NaN, NaN, NaN)
   \<and> \<not> ordered_quantiles (quantiles_of nan_galaxy)
   \<and> \<not> strictly_increasing (quantiles_of nan_galaxy)"
  by (simp add: include_vol_prior_def vol_prior_res_def parmap_def convolve_batch_def
      series_max_def np_maximum_def
      flat_conv_def unit_jacobian_def table_def nan_galaxy_def galaxy_at_def quantiles_of_def
      unfeasible_def set_quantiles_def alloc_def frame_mask_def take_mask_def
      ordered_quantiles_def strictly_increasing_def Let_def)

section \<open>An aggregator without catalogues\<close>

text \<open>
  Claim C10. With no catalogue, \<open>get_inhom_contained\<close> and \<open>get_inhom\<close> raise (they
  stack an empty list), and \<open>eval_hom\<close>, for a query that passes its length assertion,
  returns \<open>nan\<close> at every query point: the zero vector divided by the zero total.
\<close>

theorem no_catalogues:
  assumes "galcats s = []" and "MC \<longrightarrow> length th = length zs"
  shows "get_inhom_contained ang2pix keelin s zGrid nside st = Inl ValueError
       \<and> get_inhom ang2pix s nside st = Inl ValueError
       \<and> eval_hom s th ph zs MC = Inr (replicate (length th) NaN)"
  using assms by (auto simp add: get_inhom_contained_def get_inhom_def eval_hom_def)

theorem no_catalogues_witness:
  "galcats (GalCompleted_init ''mix'') = []
   \<and> get_inhom_contained (\<lambda>n t p. 0) (\<lambda>g x j. Fin 1) (GalCompleted_init ''mix'') [Fin 0] 32
        \<lparr>frames = [], ang2pix_calls = []\<rparr> = Inl ValueError
   \<and> get_inhom (\<lambda>n t p. 0) (GalCompleted_init ''mix'') 32
        \<lparr>frames = [], ang2pix_calls = []\<rparr> = Inl ValueError
   \<and> eval_hom (GalCompleted_init ''mix'') [Fin 0, Fin 1] [Fin 0, Fin 1]
        [Fin (1 / 10), Fin (2 / 10)] True = Inr [NaN, NaN]"
proof -
  have a: "galcats (GalCompleted_init ''mix'') = []"
    by (simp add: GalCompleted_init_def)
  have b: "True \<longrightarrow> length [Fin 0, Fin 1] = length [Fin (1 / 10), Fin (2 / 10)]"
    by simp
  from no_catalogues [OF a b, of "\<lambda>n t p. 0" "\<lambda>g x j. Fin 1" "[Fin 0]" 32
      "\<lparr>frames = [], ang2pix_calls = []\<rparr>" "[Fin 0, Fin 1]"] a
  show ?thesis by (simp add: numeral_2_eq_2)
qed

section \<open>Aggregation over selections\<close>

lemma galaxy_at_sel:
  "theta (galaxy_at a b c) = Fin a" "phi (galaxy_at a b c) = Fin 0" "z (galaxy_at a b c) = Fin b"
  "w (galaxy_at a b c) = Fin c"
  by (simp_all add: galaxy_at_def)

lemma table_sel: "rows (table gs) = gs" "pixcols (table gs) = []"
  by (simp_all add: table_def)

lemmas selection_defs = GalCat_init_def empty_store_def add_cat_def
  GalCompleted_init_def GalCompleted_select_area_def select_area_def cache_pix_def has_pix_def
  pix_column_def frame_mask_def take_mask_def alloc_def theta_pix_def
  GalCompleted_set_z_range_for_selection_def set_z_range_for_selection_def
  galaxy_at_sel table_sel

lemmas aggregation_defs = get_inhom_contained_def keelin_weights_def grid_completeness_def
  completeness_def confidence_def np_mean2_def np_mean_def np_sum_def np_sub_def get_inhom_def
  point_completeness_def cache_pix_def has_pix_def pix_column_def flat_keelin_def theta_pix_def
  full_model_def galaxy_at_sel state_of_def pixels_and_weights_def

lemma catalogue_A_alone_value: "catalogue_A_alone =
  (\<lparr>galcats = [\<lparr>data = 0, selectedData = 1, completeness_model = full_model\<rparr>],
    catweights = [Fin (7 / 10)], additive = False, multiplicative = False\<rparr>,
   \<lparr>frames = [\<lparr>rows = [galaxy_at 0 (1 / 10) 2], pixcols = [(32, [0])]\<rparr>,
              \<lparr>rows = [galaxy_at 0 (1 / 10) 2], pixcols = [(32, [0])]\<rparr>],
     ang2pix_calls = [(32, 0)]\<rparr>)"
  by (simp add: catalogue_A_alone_def catalogue_A_def selection_defs Let_def split del: if_split)

lemma catalogues_A_and_B_value: "catalogues_A_and_B =
  (\<lparr>galcats = [\<lparr>data = 0, selectedData = 2, completeness_model = full_model\<rparr>,
               \<lparr>data = 1, selectedData = 3, completeness_model = full_model\<rparr>],
    catweights = [Fin (7 / 10), Fin (3 / 10)], additive = False, multiplicative = False\<rparr>,
   \<lparr>frames = [\<lparr>rows = [galaxy_at 0 (1 / 10) 2], pixcols = [(32, [0])]\<rparr>,
              \<lparr>rows = [galaxy_at 1 (1 / 10) 2], pixcols = [(32, [1])]\<rparr>,
              \<lparr>rows = [galaxy_at 0 (1 / 10) 2], pixcols = [(32, [0])]\<rparr>,
              \<lparr>rows = [], pixcols = [(32, [])]\<rparr>],
     ang2pix_calls = [(32, 0), (32, 1)]\<rparr>)"
  by (simp add: catalogues_A_and_B_def catalogue_A_def catalogue_B_def selection_defs Let_def
      eval_nat_numeral split del: if_split)

text \<open>
  Claim C1, on the code. With catalogue A complete everywhere and the selection of
  catalogue B empty, \<open>get_inhom_contained\<close> returns the weights 1 for the galaxy of A
  when A is alone, but \<open>nan\<close> when B is present: the mean completeness over the empty
  selection of B is \<open>nan\<close>, and so is the total catalogue weight that divides every
  weight.
\<close>

theorem empty_selection_poisons_weights:
  "map (\<lambda>c. count_selection c (snd catalogues_A_and_B)) (galcats (fst catalogues_A_and_B)) = [1, 0]
   \<and> pixels_and_weights (get_inhom_contained theta_pix flat_keelin (fst catalogue_A_alone)
         [Fin (1 / 10), Fin (2 / 10)] 32 (snd catalogue_A_alone))
       = Inr ([0], [[Fin 1, Fin 1]])
   \<and> pixels_and_weights (get_inhom_contained theta_pix flat_keelin (fst catalogues_A_and_B)
         [Fin (1 / 10), Fin (2 / 10)] 32 (snd catalogues_A_and_B))
       = Inr ([0], [[NaN, NaN]])"
  unfolding catalogue_A_alone_value catalogues_A_and_B_value
  by (simp add: aggregation_defs count_selection_def Let_def upt_conv_Cons split del: if_split)

lemma after_z_range_value: "after_z_range =
  (\<lparr>galcats = [\<lparr>data = 0, selectedData = 1, completeness_model = full_model\<rparr>],
    catweights = [Fin 1], additive = False, multiplicative = False\<rparr>,
   \<lparr>frames = [\<lparr>rows = [galaxy_at 0 (1 / 10) 1, galaxy_at 1 (3 / 10) 1], pixcols = []\<rparr>,
              \<lparr>rows = [galaxy_at 0 (1 / 10) 1], pixcols = []\<rparr>],
     ang2pix_calls = []\<rparr>)"
  by (simp add: after_z_range_def two_galaxies_def selection_defs Let_def split del: if_split)

lemma after_first_aggregation_value: "after_first_aggregation =
   \<lparr>frames = [\<lparr>rows = [galaxy_at 0 (1 / 10) 1, galaxy_at 1 (3 / 10) 1], pixcols = []\<rparr>,
              \<lparr>rows = [galaxy_at 0 (1 / 10) 1], pixcols = [(32, [0])]\<rparr>],
     ang2pix_calls = [(32, 1)]\<rparr>"
  unfolding after_first_aggregation_def after_z_range_value
  by (simp add: aggregation_defs Let_def split del: if_split)

lemma after_select_area_value: "after_select_area =
  (\<lparr>galcats = [\<lparr>data = 0, selectedData = 2, completeness_model = full_model\<rparr>],
    catweights = [Fin 1], additive = False, multiplicative = False\<rparr>,
   \<lparr>frames = [\<lparr>rows = [galaxy_at 0 (1 / 10) 1, galaxy_at 1 (3 / 10) 1], pixcols = [(64, [0, 1])]\<rparr>,
              \<lparr>rows = [galaxy_at 0 (1 / 10) 1], pixcols = [(32, [0])]\<rparr>,
              \<lparr>rows = [galaxy_at 0 (1 / 10) 1, galaxy_at 1 (3 / 10) 1], pixcols = [(64, [0, 1])]\<rparr>],
     ang2pix_calls = [(32, 1), (64, 0)]\<rparr>)"
  unfolding after_select_area_def after_first_aggregation_value after_z_range_value
  by (simp add: selection_defs Let_def eval_nat_numeral split del: if_split)

lemma after_second_aggregation_value: "after_second_aggregation =
   \<lparr>frames = [\<lparr>rows = [galaxy_at 0 (1 / 10) 1, galaxy_at 1 (3 / 10) 1], pixcols = [(64, [0, 1])]\<rparr>,
              \<lparr>rows = [galaxy_at 0 (1 / 10) 1], pixcols = [(32, [0])]\<rparr>,
              \<lparr>rows = [galaxy_at 0 (1 / 10) 1, galaxy_at 1 (3 / 10) 1],
                pixcols = [(64, [0, 1]), (32, [0, 1])]\<rparr>],
     ang2pix_calls = [(32, 1), (64, 0), (32, 2)]\<rparr>"
  unfolding after_second_aggregation_def after_select_area_value
  by (simp add: aggregation_defs Let_def eval_nat_numeral split del: if_split)

text \<open>
  Claim C3, on the code. After a redshift selection the aggregation computes the
  pixel column of resolution 32 on the selection (address 1) and not on the full table
  (address 0); after a new area selection at resolution 64 the column is missing from
  the new selection, and the next aggregation computes it again: \<open>hp.ang2pix\<close> runs
  twice at resolution 32 for the same catalogue.
\<close>

theorem pixel_column_cached_on_selection:
  "map data (galcats (fst after_z_range)) = [0]
   \<and> ang2pix_calls after_first_aggregation = [(32, 1)]
   \<and> \<not> has_pix (frames after_first_aggregation ! 0) 32
   \<and> \<not> has_pix (frames after_second_aggregation ! 0) 32
   \<and> ang2pix_calls after_second_aggregation = [(32, 1), (64, 0), (32, 2)]"
  unfolding after_z_range_value after_first_aggregation_value after_second_aggregation_value
  by (simp add: has_pix_def)

section \<open>Additive completion\<close>


























end
